theory Spec2Isabelle
  imports Complex_Main
begin

section \<open>Data model\<close>

text \<open>
  The script \<^verbatim>\<open>logistic_regression.py\<close> works on numpy \<^verbatim>\<open>float64\<close> values. Finite
  values are modelled by exact reals (rounding and overflow are not modelled); the three
  non-finite values that the script tests for are kept as separate constructors. Where
  a property depends on the rounding of an addition, the rounded addition \<open>add64\<close> and
  the generator \<open>generate_ellipsoid_clusters_f64\<close> built on it are used.
\<close>

datatype npfloat = Fin real | PInf | NInf | NaN

type_synonym point = "real \<times> real"

type_synonym path = "point list"

datatype error =
    ValueError string
  | LibraryError string

text \<open>An exception ends the computation that raises it, up to the handler.\<close>

definition bind_err :: "error + 'a \<Rightarrow> ('a \<Rightarrow> error + 'b) \<Rightarrow> error + 'b" where
  "bind_err m f = (case m of Inl e \<Rightarrow> Inl e | Inr v \<Rightarrow> f v)"

text \<open>
  A console line written by the script: the shift distance and the exception of the
  message \<^verbatim>\<open>Error calculating margin width at distance ...\<close>.
\<close>

datatype console_line = MarginError real error

text \<open>
  The numeric and plotting libraries are not part of the repository. Their entry points
  that the script calls are taken as parameters:
  \<^item> \<open>seed\<close>: the generator state installed by \<^verbatim>\<open>np.random.seed\<close>;
  \<^item> \<open>mvn_draw\<close>: one row of \<^verbatim>\<open>np.random.multivariate_normal\<close>, drawn from the
    global generator state, which it advances;
  \<^item> \<open>fit\<close>: \<^verbatim>\<open>LogisticRegression().fit\<close>, which may raise;
  \<^item> \<open>intercept0\<close>, \<open>coef0\<close>: the fitted attributes \<^verbatim>\<open>intercept_[0]\<close>, \<^verbatim>\<open>coef_[0]\<close>;
  \<^item> \<open>predict_proba\<close>: the two probability columns, one row per input point;
  \<^item> \<open>log_loss\<close>: \<^verbatim>\<open>sklearn.metrics.log_loss\<close>;
  \<^item> \<open>contourf\<close>: \<^verbatim>\<open>plt.contourf(xx, yy, Z, levels=[lo, hi])\<close>;
  \<^item> \<open>get_paths\<close>: \<^verbatim>\<open>.collections[0].get_paths()\<close> with the vertices of each path,
    or the exception it raises;
  \<^item> \<open>figure\<close>: \<^verbatim>\<open>plt.figure(figsize=(w, h))\<close>, which may raise;
  \<^item> \<open>savefig\<close>: \<^verbatim>\<open>plt.tight_layout()\<close> and \<^verbatim>\<open>plt.savefig(name)\<close> on the current figure of
    the given size; the file is written when no exception is raised.
  Nothing is assumed about what these functions compute.
\<close>

record ('g, 'm, 'c) libs =
  seed :: "nat \<Rightarrow> 'g"
  mvn_draw :: "'g \<Rightarrow> point \<Rightarrow> (real \<times> real) \<times> (real \<times> real) \<Rightarrow> point \<times> 'g"
  fit :: "point list \<Rightarrow> real list \<Rightarrow> error + 'm"
  intercept0 :: "'m \<Rightarrow> real"
  coef0 :: "'m \<Rightarrow> real \<times> real"
  predict_proba :: "'m \<Rightarrow> point list \<Rightarrow> (real \<times> real) list"
  log_loss :: "real list \<Rightarrow> (real \<times> real) list \<Rightarrow> real"
  contourf :: "real list list \<Rightarrow> real list list \<Rightarrow> real list list \<Rightarrow> real \<times> real \<Rightarrow> 'c"
  get_paths :: "'c \<Rightarrow> error + path list"
  figure :: "real \<times> real \<Rightarrow> error + unit"
  savefig :: "real \<times> real \<Rightarrow> string \<Rightarrow> error + unit"

section \<open>numpy helpers\<close>

text \<open>
  \<^verbatim>\<open>np.linspace(start, stop, num)\<close> with the default \<^verbatim>\<open>endpoint=True\<close>: a negative
  \<open>num\<close> raises; otherwise \<open>arange(0, num)\<close> is scaled by \<open>step = delta / dv\<close> when
  \<open>dv = num - 1\<close> is positive and by \<open>delta\<close> otherwise, \<open>start\<close> is added, and
  the last entry is overwritten by \<open>stop\<close> when \<open>num > 1\<close>.
\<close>

definition linspace :: "real \<Rightarrow> real \<Rightarrow> int \<Rightarrow> error + real list" where
  "linspace start stop num =
     (if num < 0 then Inl (ValueError ''Number of samples must be non-negative'')
      else
        let dv = num - 1;
            delta = stop - start;
            y0 = map real [0..<nat num];
            y1 = (if dv > 0 then map (\<lambda>k. k * (delta / real_of_int dv)) y0
                  else map (\<lambda>k. k * delta) y0);
            y2 = map (\<lambda>v. v + start) y1;
            y3 = (if num > 1 then y2[length y2 - 1 := stop] else y2)
        in Inr y3)"

text \<open>\<^verbatim>\<open>np.random.multivariate_normal(mean, cov, size)\<close>: \<open>size\<close> rows drawn in order.\<close>

fun multivariate_normal ::
  "('g, 'm, 'c) libs \<Rightarrow> 'g \<Rightarrow> point \<Rightarrow> (real \<times> real) \<times> (real \<times> real) \<Rightarrow> nat \<Rightarrow> point list \<times> 'g"
where
  "multivariate_normal L g mean cov 0 = ([], g)"
| "multivariate_normal L g mean cov (Suc n) =
     (let (p, g1) = mvn_draw L g mean cov;
          (ps, g2) = multivariate_normal L g1 mean cov n
      in (p # ps, g2))"

text \<open>Division of two finite \<^verbatim>\<open>float64\<close> scalars: a zero divisor gives a non-finite value.\<close>

definition np_div :: "real \<Rightarrow> real \<Rightarrow> npfloat" where
  "np_div a b =
     (if b \<noteq> 0 then Fin (a / b)
      else if a > 0 then PInf
      else if a < 0 then NInf
      else NaN)"

definition np_isnan :: "npfloat \<Rightarrow> bool" where
  "np_isnan v = (v = NaN)"

definition np_isinf :: "npfloat \<Rightarrow> bool" where
  "np_isinf v = (v = PInf \<or> v = NInf)"

section \<open>Cluster generator\<close>

definition covariance_matrix :: "real \<Rightarrow> (real \<times> real) \<times> (real \<times> real)" where
  "covariance_matrix cluster_std =
     ((cluster_std, cluster_std * 0.8), (cluster_std * 0.8, cluster_std))"

definition shift_by :: "real \<Rightarrow> point \<Rightarrow> point" where
  "shift_by distance p = (fst p + distance, snd p + distance)"

text \<open>
  \<^verbatim>\<open>generate_ellipsoid_clusters(distance, n_samples, cluster_std)\<close>. The first argument
  of the model is the state of the global generator when the call starts; the second
  component of the result is the state the call leaves behind. The sample count is a
  natural number: numpy rejects a negative size before anything is drawn.
\<close>

definition generate_ellipsoid_clusters ::
  "('g, 'm, 'c) libs \<Rightarrow> 'g \<Rightarrow> real \<Rightarrow> nat \<Rightarrow> real \<Rightarrow> (point list \<times> real list) \<times> 'g"
where
  "generate_ellipsoid_clusters L g_in distance n_samples cluster_std =
     (let g0 = seed L 0;
          cov = covariance_matrix cluster_std;
          (X1, g1) = multivariate_normal L g0 (1, 1) cov n_samples;
          y1 = replicate n_samples (0::real);
          (X2, g2) = multivariate_normal L g1 (1, 1) cov n_samples;
          X2s = map (shift_by distance) X2;
          y2 = replicate n_samples (1::real);
          X = X1 @ X2s;
          y = y1 @ y2
      in ((X, y), g2))"

section \<open>Array reductions, distances and masks\<close>

text \<open>\<^verbatim>\<open>.min()\<close> and \<^verbatim>\<open>.max()\<close> of an array raise on an array without elements.\<close>

definition amin :: "real list \<Rightarrow> error + real" where
  "amin xs =
     (case xs of
        [] \<Rightarrow> Inl (ValueError ''zero-size array to reduction operation minimum'')
      | v # vs \<Rightarrow> Inr (fold min vs v))"

definition amax :: "real list \<Rightarrow> error + real" where
  "amax xs =
     (case xs of
        [] \<Rightarrow> Inl (ValueError ''zero-size array to reduction operation maximum'')
      | v # vs \<Rightarrow> Inr (fold max vs v))"

definition euclidean :: "point \<Rightarrow> point \<Rightarrow> real" where
  "euclidean p q = sqrt ((fst p - fst q)\<^sup>2 + (snd p - snd q)\<^sup>2)"

text \<open>\<^verbatim>\<open>scipy.spatial.distance.cdist\<close> with its default metric: one row per point of \<open>A\<close>.\<close>

definition cdist :: "point list \<Rightarrow> point list \<Rightarrow> real list list" where
  "cdist A B = map (\<lambda>a. map (\<lambda>b. euclidean a b) B) A"

text \<open>\<^verbatim>\<open>np.min\<close> of a two-dimensional array.\<close>

definition np_min :: "real list list \<Rightarrow> error + real" where
  "np_min M = amin (concat M)"

text \<open>Indexing an array by a boolean mask of the same length.\<close>

definition mask_select :: "'a list \<Rightarrow> bool list \<Rightarrow> 'a list" where
  "mask_select xs valid = map fst (filter snd (zip xs valid))"

text \<open>\<^verbatim>\<open>np.meshgrid(xs, ys)\<close>, \<^verbatim>\<open>.ravel()\<close> joined by \<^verbatim>\<open>np.c_\<close>, and \<^verbatim>\<open>.reshape\<close>.\<close>

definition meshgrid :: "real list \<Rightarrow> real list \<Rightarrow> real list list \<times> real list list" where
  "meshgrid xs ys = (replicate (length ys) xs, map (\<lambda>y. replicate (length xs) y) ys)"

definition grid_points :: "real list list \<Rightarrow> real list list \<Rightarrow> point list" where
  "grid_points xx yy = zip (concat xx) (concat yy)"

definition reshape :: "nat \<Rightarrow> nat \<Rightarrow> 'a list \<Rightarrow> 'a list list" where
  "reshape rows cols zs = map (\<lambda>r. take cols (drop (r * cols) zs)) [0..<rows]"

section \<open>Formatting of the margin caption\<close>

definition digit_char :: "nat \<Rightarrow> char" where
  "digit_char d = ''0123456789'' ! (d mod 10)"

fun show_nat :: "nat \<Rightarrow> string" where
  "show_nat n = (if n < 10 then [digit_char n] else show_nat (n div 10) @ [digit_char (n mod 10)])"

definition round_half_even :: "real \<Rightarrow> int" where
  "round_half_even x =
     (let f = \<lfloor>x\<rfloor>; d = x - of_int f
      in if d < 1 / 2 then f
         else if d > 1 / 2 then f + 1
         else if even f then f else f + 1)"

text \<open>The format specification \<^verbatim>\<open>:.2f\<close>.\<close>

definition fmt_2f :: "npfloat \<Rightarrow> string" where
  "fmt_2f v =
     (case v of
        NaN \<Rightarrow> ''nan''
      | PInf \<Rightarrow> ''inf''
      | NInf \<Rightarrow> ''-inf''
      | Fin r \<Rightarrow>
          (let n = nat (round_half_even (\<bar>r\<bar> * 100))
           in (if r < 0 then ''-'' else []) @ show_nat (n div 100) @ ''.'' @
              [digit_char ((n div 10) mod 10), digit_char (n mod 10)]))"

text \<open>
  Truth value of \<open>min_distance\<close>: \<open>None\<close> is false, a \<^verbatim>\<open>float64\<close> is false exactly
  when it equals zero.
\<close>

definition truthy :: "npfloat option \<Rightarrow> bool" where
  "truthy md = (case md of None \<Rightarrow> False | Some v \<Rightarrow> v \<noteq> Fin 0)"

definition margin_text :: "npfloat option \<Rightarrow> string" where
  "margin_text min_distance =
     (case min_distance of
        None \<Rightarrow> ''Margin Width: N/A''
      | Some v \<Rightarrow>
          if truthy (Some v) then ''Margin Width: '' @ fmt_2f v
          else ''Margin Width: N/A'')"

section \<open>Boundary and margin analysis\<close>

text \<open>The derived boundary line of lines 63 and 64.\<close>

definition slope_of :: "real \<Rightarrow> real \<Rightarrow> npfloat" where
  "slope_of beta1 beta2 = np_div (- beta1) beta2"

definition intercept_of :: "real \<Rightarrow> real \<Rightarrow> npfloat" where
  "intercept_of beta0 beta2 = np_div (- beta0) beta2"

text \<open>The plot limits: the bounding box of the data, one unit wider on each side.\<close>

definition bounding_box :: "point list \<Rightarrow> error + (real \<times> real \<times> real \<times> real)" where
  "bounding_box X =
     bind_err (amin (map fst X)) (\<lambda>x_lo.
     bind_err (amax (map fst X)) (\<lambda>x_hi.
     bind_err (amin (map snd X)) (\<lambda>y_lo.
     bind_err (amax (map snd X)) (\<lambda>y_hi.
       Inr (x_lo - 1, x_hi + 1, y_lo - 1, y_hi + 1)))))"

text \<open>The probability surface \<open>Z\<close> of class 1 over the mesh \<open>xx\<close>, \<open>yy\<close>.\<close>

definition prob_grid ::
  "('g, 'm, 'c) libs \<Rightarrow> 'm \<Rightarrow> real \<Rightarrow> real \<Rightarrow> real \<Rightarrow> real \<Rightarrow>
     error + (real list list \<times> real list list \<times> real list list)"
where
  "prob_grid L model x_min x_max y_min y_max =
     bind_err (linspace x_min x_max 200) (\<lambda>gx.
     bind_err (linspace y_min y_max 200) (\<lambda>gy.
       (let (xx, yy) = meshgrid gx gy;
            Z = map snd (predict_proba L model (grid_points xx yy))
        in Inr (xx, yy, reshape (length xx) (length gx) Z))))"

text \<open>
  The body of the \<^verbatim>\<open>try\<close> block: \<open>Inl e\<close> when an exception is raised, \<open>Inr None\<close> for
  the \<^verbatim>\<open>else\<close> branch of the emptiness test, \<open>Inr (Some m)\<close> for a computed distance.
\<close>

definition extract_margin :: "('g, 'm, 'c) libs \<Rightarrow> 'c \<Rightarrow> 'c \<Rightarrow> error + real option" where
  "extract_margin L class_1_contour class_0_contour =
     bind_err (get_paths L class_1_contour) (\<lambda>c1_paths.
     bind_err (get_paths L class_0_contour) (\<lambda>c0_paths.
       if c1_paths \<noteq> [] \<and> c0_paths \<noteq> [] then
         (let c1_vertices = concat c1_paths;
              c0_vertices = concat c0_paths;
              distances = cdist c1_vertices c0_vertices
          in bind_err (np_min distances) (\<lambda>m. Inr (Some m)))
       else Inr None))"

definition contour_levels :: "real list" where
  "contour_levels = [0.7, 0.8, 0.9]"

definition alphas :: "real list" where
  "alphas = [0.05, 0.1, 0.15]"

text \<open>
  One round of the loop over the contour levels. The state is the triple of
  \<open>margin_widths\<close>, \<open>min_distance\<close> and the console.
\<close>

definition level_step ::
  "('g, 'm, 'c) libs \<Rightarrow> real list list \<Rightarrow> real list list \<Rightarrow> real list list \<Rightarrow> real \<Rightarrow>
     real \<times> real \<Rightarrow> npfloat list \<times> npfloat option \<times> console_line list \<Rightarrow>
     npfloat list \<times> npfloat option \<times> console_line list"
where
  "level_step L xx yy Z distance la st =
     (let level = fst la;
          margin_widths = fst st;
          min_distance = fst (snd st);
          console = snd (snd st);
          class_1_contour = contourf L xx yy Z (level, 1.0);
          class_0_contour = contourf L xx yy Z (0.0, 1 - level)
      in if level = 0.7 then
           (case extract_margin L class_1_contour class_0_contour of
              Inr (Some m) \<Rightarrow> (margin_widths @ [Fin m], Some (Fin m), console)
            | Inr None \<Rightarrow> (margin_widths @ [NaN], min_distance, console)
            | Inl e \<Rightarrow> (margin_widths @ [NaN], min_distance, console @ [MarginError distance e]))
         else st)"

text \<open>
  Lines 75 to 109 for one distance: the grid over the widened bounding box, the
  probability surface, and the loop over the contour levels with \<open>min_distance\<close>
  starting as \<open>None\<close>.
\<close>

definition analyse_margin ::
  "('g, 'm, 'c) libs \<Rightarrow> 'm \<Rightarrow> point list \<Rightarrow> real \<Rightarrow> npfloat list \<Rightarrow> console_line list \<Rightarrow>
     error + (npfloat list \<times> npfloat option \<times> console_line list)"
where
  "analyse_margin L model X distance widths console =
     bind_err (bounding_box X) (\<lambda>(x_min, x_max, y_min, y_max).
     bind_err (prob_grid L model x_min x_max y_min y_max) (\<lambda>(xx, yy, Z).
       Inr (fold (level_step L xx yy Z distance) (zip contour_levels alphas)
              (widths, None, console))))"

section \<open>Sweep driver\<close>

record 'g sweep =
  rng :: 'g
  beta0_list :: "real list"
  beta1_list :: "real list"
  beta2_list :: "real list"
  slope_list :: "npfloat list"
  intercept_list :: "npfloat list"
  loss_list :: "real list"
  margin_widths :: "npfloat list"
  margin_texts :: "string list"
  stdout :: "console_line list"

definition init_sweep :: "'g \<Rightarrow> 'g sweep" where
  "init_sweep g =
     \<lparr>rng = g, beta0_list = [], beta1_list = [], beta2_list = [], slope_list = [],
      intercept_list = [], loss_list = [], margin_widths = [], margin_texts = [], stdout = []\<rparr>"

text \<open>\<^verbatim>\<open>fit_logistic_regression(X, y)\<close>: the fitted model with its three coefficients.\<close>

definition fit_logistic_regression ::
  "('g, 'm, 'c) libs \<Rightarrow> point list \<Rightarrow> real list \<Rightarrow> error + ('m \<times> real \<times> real \<times> real)"
where
  "fit_logistic_regression L X y =
     bind_err (fit L X y) (\<lambda>model.
       (let beta0 = intercept0 L model;
            beta1 = fst (coef0 L model);
            beta2 = snd (coef0 L model)
        in Inr (model, beta0, beta1, beta2)))"

text \<open>
  The body of the loop over the shift distances, with the default sample count 100 and
  spread 0.5 of the generator; an exception leaves the loop. Calls that only draw on
  the current figure are left out.
\<close>

definition experiment_step ::
  "('g, 'm, 'c) libs \<Rightarrow> real \<Rightarrow> 'g sweep \<Rightarrow> error + 'g sweep"
where
  "experiment_step L distance st =
     (let (Xy, g') = generate_ellipsoid_clusters L (rng st) distance 100 0.5;
          X = fst Xy;
          y = snd Xy
      in bind_err (fit_logistic_regression L X y) (\<lambda>(model, beta0, beta1, beta2).
         (let slope = slope_of beta1 beta2;
              intercept = intercept_of beta0 beta2;
              loss = log_loss L y (predict_proba L model X)
          in bind_err (analyse_margin L model X distance (margin_widths st) (stdout st)) (\<lambda>r.
             (let min_distance = fst (snd r)
              in Inr (st\<lparr>rng := g',
                         beta0_list := beta0_list st @ [beta0],
                         beta1_list := beta1_list st @ [beta1],
                         beta2_list := beta2_list st @ [beta2],
                         slope_list := slope_list st @ [slope],
                         intercept_list := intercept_list st @ [intercept],
                         loss_list := loss_list st @ [loss],
                         margin_widths := fst r,
                         margin_texts := margin_texts st @ [margin_text min_distance],
                         stdout := snd (snd r)\<rparr>))))))"

fun run_experiments ::
  "('g, 'm, 'c) libs \<Rightarrow> real list \<Rightarrow> 'g sweep \<Rightarrow> error + 'g sweep"
where
  "run_experiments L [] st = Inr st"
| "run_experiments L (distance # rest) st =
     bind_err (experiment_step L distance st) (\<lambda>st'. run_experiments L rest st')"

text \<open>The slope subplot of the second figure: the two arrays handed to \<^verbatim>\<open>plt.plot\<close>.\<close>

definition slope_subplot :: "real list \<Rightarrow> real list \<Rightarrow> real list \<Rightarrow> real list \<times> npfloat list" where
  "slope_subplot shift_distances beta1_array beta2_array =
     (let epsilon = 1 / 10 ^ 8;
          slopes = map (\<lambda>(b1, b2). np_div b1 (b2 + epsilon)) (zip beta1_array beta2_array);
          valid_indices = map (\<lambda>s. \<not> np_isnan s \<and> \<not> np_isinf s) slopes
      in (mask_select shift_distances valid_indices, mask_select slopes valid_indices))"

definition intercept_subplot :: "real list \<Rightarrow> real list \<Rightarrow> real list \<Rightarrow> real list \<times> npfloat list" where
  "intercept_subplot shift_distances beta0_array beta2_array =
     (shift_distances, map (\<lambda>(b0, b2). np_div b0 b2) (zip beta0_array beta2_array))"

record 'g outcome =
  shift_distances :: "real list"
  final :: "'g sweep"
  slope_plot :: "real list \<times> npfloat list"
  intercept_plot :: "real list \<times> npfloat list"
  files :: "string list"

text \<open>
  \<^verbatim>\<open>do_experiments(start, end, step_num)\<close>, started with the global generator in state
  \<open>g\<close>. The first figure has \<open>n_rows = (step_num + 2 - 1) // 2\<close> rows of panels
  and the size \<open>(20, n_rows * 10)\<close>; it is saved after the loop, then the second figure
  of size \<open>(18, 15)\<close> is drawn and saved. An exception of the loop or of a figure call
  ends the function. The result of a call that returns holds the local sequences, the
  data of the two ratio subplots and the names of the files saved, in order.
\<close>

definition do_experiments ::
  "('g, 'm, 'c) libs \<Rightarrow> 'g \<Rightarrow> real \<Rightarrow> real \<Rightarrow> int \<Rightarrow> error + 'g outcome"
where
  "do_experiments L g start stop step_num =
     bind_err (linspace start stop step_num) (\<lambda>ds.
       (let n_samples = step_num;
            n_cols = 2;
            n_rows = (n_samples + n_cols - 1) div n_cols;
            size1 = (20, real_of_int (n_rows * 10));
            size2 = (18, 15);
            file1 = ''results/dataset.png'';
            file2 = ''results/parameters_vs_shift_distance.png''
        in bind_err (figure L size1) (\<lambda>u1.
           bind_err (run_experiments L ds (init_sweep g)) (\<lambda>st.
           bind_err (savefig L size1 file1) (\<lambda>u2.
           bind_err (figure L size2) (\<lambda>u3.
           bind_err (savefig L size2 file2) (\<lambda>u4.
             Inr \<lparr>shift_distances = ds,
                  final = st,
                  slope_plot = slope_subplot ds (beta1_list st) (beta2_list st),
                  intercept_plot = intercept_subplot ds (beta0_list st) (beta2_list st),
                  files = [file1, file2]\<rparr>)))))))"

section \<open>Auxiliary notions for stating the properties\<close>

text \<open>The classifier fits the dataset of a shift distance without raising.\<close>

definition fit_ok :: "('g, 'm, 'c) libs \<Rightarrow> real \<Rightarrow> bool" where
  "fit_ok L distance =
     (let Xy = fst (generate_ellipsoid_clusters L (seed L 0) distance 100 0.5)
      in case fit L (fst Xy) (snd Xy) of Inl e \<Rightarrow> False | Inr model \<Rightarrow> True)"

text \<open>
  A stand-in for the libraries on which the model can be run: the generator state
  counts the draws, every draw returns the mean, the fitted model is the triple
  \<open>(0, 1, 1)\<close>, a contour set is the pair of its levels, the paths of the class-1
  and class-0 regions are the arguments \<open>p1\<close> and \<open>p0\<close>, and a figure is saved when
  its width and height are positive.
\<close>

definition toy_libs ::
  "error + path list \<Rightarrow> error + path list \<Rightarrow> (nat, real \<times> real \<times> real, real \<times> real) libs"
where
  "toy_libs p1 p0 =
     \<lparr>seed = (\<lambda>n. n),
      mvn_draw = (\<lambda>g mean cov. (mean, Suc g)),
      fit = (\<lambda>X y. Inr (0, 1, 1)),
      intercept0 = fst,
      coef0 = snd,
      predict_proba = (\<lambda>model X. map (\<lambda>p. (1 / 2, 1 / 2)) X),
      log_loss = (\<lambda>y P. 0),
      contourf = (\<lambda>xx yy Z levels. levels),
      get_paths = (\<lambda>levels. if snd levels = 1 then p1 else p0),
      figure = (\<lambda>size. Inr ()),
      savefig = (\<lambda>size name.
        if 0 < fst size \<and> 0 < snd size then Inr ()
        else Inl (ValueError ''figure size must be positive''))\<rparr>"


text \<open>
  The uniform grid of the specification: 200 points from \<open>lo\<close> to \<open>hi\<close>, both
  included, at equal steps.
\<close>

definition grid_axis :: "real \<Rightarrow> real \<Rightarrow> real list" where
  "grid_axis lo hi = map (\<lambda>i. lo + real i * ((hi - lo) / 199)) [0..<200]"

text \<open>
  The mesh and the surface that lines 75 to 83 build for a dataset \<open>X\<close>, in closed form.
\<close>

definition panel_grid ::
  "('g, 'm, 'c) libs \<Rightarrow> 'm \<Rightarrow> point list \<Rightarrow> real list list \<times> real list list \<times> real list list"
where
  "panel_grid L model X =
     (let gx = grid_axis (Min (fst ` set X) - 1) (Max (fst ` set X) + 1);
          gy = grid_axis (Min (snd ` set X) - 1) (Max (snd ` set X) + 1)
      in (replicate 200 gx, map (replicate 200) gy,
          reshape 200 200
            (map snd (predict_proba L model (concat (map (\<lambda>y. map (\<lambda>x. (x, y)) gx) gy))))))"

text \<open>
  The probability surface of the specification for a dataset \<open>X\<close>. The grid points
  are the pairs of the two uniform axes over the bounding box of \<open>X\<close> widened by one
  unit on each side, listed row by row; the entry in row \<open>r\<close> and column \<open>c\<close> of the
  surface is the class-1 probability that \<open>predict_proba\<close> returns for the grid point
  in that position.
\<close>

definition spec_grid_points :: "point list \<Rightarrow> point list" where
  "spec_grid_points X =
     concat (map (\<lambda>y. map (\<lambda>x. (x, y))
                  (grid_axis (Min (fst ` set X) - 1) (Max (fst ` set X) + 1)))
               (grid_axis (Min (snd ` set X) - 1) (Max (snd ` set X) + 1)))"

definition spec_probability_grid ::
  "('g, 'm, 'c) libs \<Rightarrow> 'm \<Rightarrow> point list \<Rightarrow> real list list \<times> real list list \<times> real list list"
where
  "spec_probability_grid L model X =
     (replicate 200 (grid_axis (Min (fst ` set X) - 1) (Max (fst ` set X) + 1)),
      map (replicate 200) (grid_axis (Min (snd ` set X) - 1) (Max (snd ` set X) + 1)),
      map (\<lambda>r. map (\<lambda>c. snd (predict_proba L model (spec_grid_points X) ! (r * 200 + c)))
                [0..<200])
        [0..<200])"

text \<open>
  Rounding of a real to the nearest \<^verbatim>\<open>float64\<close>, ties to even, with 53 significant bits;
  overflow and subnormal numbers are left out. \<open>add64\<close> is the addition of two
  \<^verbatim>\<open>float64\<close> values.
\<close>

definition fl64 :: "real \<Rightarrow> real" where
  "fl64 x =
     (if x = 0 then 0
      else let u = power_int 2 (\<lfloor>log 2 \<bar>x\<bar>\<rfloor> - 52)
           in of_int (round_half_even (x / u)) * u)"

definition add64 :: "real \<Rightarrow> real \<Rightarrow> real" where
  "add64 a b = fl64 (a + b)"

text \<open>
  The cluster generator with the addition of line 25 carried out in \<^verbatim>\<open>float64\<close>; the
  rest is \<open>generate_ellipsoid_clusters\<close>.
\<close>

definition generate_ellipsoid_clusters_f64 ::
  "('g, 'm, 'c) libs \<Rightarrow> 'g \<Rightarrow> real \<Rightarrow> nat \<Rightarrow> real \<Rightarrow> (point list \<times> real list) \<times> 'g"
where
  "generate_ellipsoid_clusters_f64 L g_in distance n_samples cluster_std =
     (let g0 = seed L 0;
          cov = covariance_matrix cluster_std;
          (X1, g1) = multivariate_normal L g0 (1, 1) cov n_samples;
          y1 = replicate n_samples (0::real);
          (X2, g2) = multivariate_normal L g1 (1, 1) cov n_samples;
          X2s = map (\<lambda>p. (add64 (fst p) distance, add64 (snd p) distance)) X2;
          y2 = replicate n_samples (1::real);
          X = X1 @ X2s;
          y = y1 @ y2
      in ((X, y), g2))"

text \<open>The stand-in libraries with every draw equal to the point \<open>(a, a)\<close>.\<close>

definition toy_draw_libs :: "real \<Rightarrow> (nat, real \<times> real \<times> real, real \<times> real) libs" where
  "toy_draw_libs a = (toy_libs (Inr []) (Inr []))\<lparr>mvn_draw := (\<lambda>g mean cov. ((a, a), Suc g))\<rparr>"

section \<open>Properties of the cluster generator\<close>

lemma multivariate_normal_length:
  "length (fst (multivariate_normal L g mean cov n)) = n"
  by (induction n arbitrary: g) (simp_all add: case_prod_beta Let_def)

lemma generate_points:
  "fst (fst (generate_ellipsoid_clusters L g distance n cs)) =
     fst (multivariate_normal L (seed L 0) (1, 1) (covariance_matrix cs) n) @
     map (shift_by distance)
       (fst (multivariate_normal L
          (snd (multivariate_normal L (seed L 0) (1, 1) (covariance_matrix cs) n))
          (1, 1) (covariance_matrix cs) n))"
  by (simp add: generate_ellipsoid_clusters_def Let_def case_prod_beta)

lemma generate_labels:
  "snd (fst (generate_ellipsoid_clusters L g distance n cs)) = replicate n 0 @ replicate n 1"
  by (simp add: generate_ellipsoid_clusters_def Let_def case_prod_beta)

text \<open>
  Claim C3. Two calls of the cluster generator with the same distance, sample count and
  spread return the same points and labels, whatever state the global generator is in
  when each call starts, because every call begins by seeding it with 0. In particular
  a call made right after another one, on the state that one left behind, returns the
  same dataset.
\<close>

theorem generator_deterministic:
  "fst (generate_ellipsoid_clusters L g distance n cs) =
     fst (generate_ellipsoid_clusters L g' distance n cs) \<and>
   fst (generate_ellipsoid_clusters L
          (snd (generate_ellipsoid_clusters L g distance n cs)) distance n cs) =
     fst (generate_ellipsoid_clusters L g distance n cs)"
  by (simp add: prod_eq_iff generate_points generate_labels)

text \<open>
  Claim C4. For every distance and sample count \<open>n\<close> the generator returns \<open>2 * n\<close>
  points, and the label vector is \<open>n\<close> zeros followed by \<open>n\<close> ones.
\<close>

theorem generator_label_balance:
  "length (fst (fst (generate_ellipsoid_clusters L g distance n cs))) = 2 * n \<and>
   snd (fst (generate_ellipsoid_clusters L g distance n cs)) = replicate n 0 @ replicate n 1 \<and>
   length (snd (fst (generate_ellipsoid_clusters L g distance n cs))) = 2 * n"
  by (simp add: generate_points generate_labels multivariate_normal_length)

text \<open>
  Claim C5. Both clusters are drawn with the same covariance matrix, whose diagonal
  entries are the spread and whose off-diagonal entries are 0.8 times the spread. The
  first \<open>n\<close> points are a draw centred at (1, 1); the last \<open>n\<close> points are the next draw
  centred at (1, 1), each point moved by (distance, distance).
\<close>

theorem generator_clusters:
  "covariance_matrix cs = ((cs, 0.8 * cs), (0.8 * cs, cs)) \<and>
   take n (fst (fst (generate_ellipsoid_clusters L g distance n cs))) =
     fst (multivariate_normal L (seed L 0) (1, 1) (covariance_matrix cs) n) \<and>
   drop n (fst (fst (generate_ellipsoid_clusters L g distance n cs))) =
     map (\<lambda>p. (fst p + distance, snd p + distance))
       (fst (multivariate_normal L
          (snd (multivariate_normal L (seed L 0) (1, 1) (covariance_matrix cs) n))
          (1, 1) (covariance_matrix cs) n))"
  by (simp add: generate_points multivariate_normal_length covariance_matrix_def shift_by_def)

text \<open>
  Claim C9, amended. For two distances \<open>d\<close> and \<open>d'\<close> with the same sample count and
  spread, the class-0 points of the two datasets are the same and the label vectors are
  the same; in exact real arithmetic every class-1 point at \<open>d\<close> is the class-1 point at
  \<open>d'\<close> in the same position moved by (d - d', d - d').
\<close>

theorem generator_shift_relation:
  "take n (fst (fst (generate_ellipsoid_clusters L g d n cs))) =
     take n (fst (fst (generate_ellipsoid_clusters L g' d' n cs))) \<and>
   drop n (fst (fst (generate_ellipsoid_clusters L g d n cs))) =
     map (\<lambda>p. (fst p + (d - d'), snd p + (d - d')))
       (drop n (fst (fst (generate_ellipsoid_clusters L g' d' n cs)))) \<and>
   snd (fst (generate_ellipsoid_clusters L g d n cs)) =
     snd (fst (generate_ellipsoid_clusters L g' d' n cs))"
  by (simp add: generate_points generate_labels multivariate_normal_length shift_by_def)

section \<open>The shift of the second cluster in float64\<close>

lemma generate_f64_class0:
  "take n (fst (fst (generate_ellipsoid_clusters_f64 L g d n cs))) =
     take n (fst (fst (generate_ellipsoid_clusters L g d n cs))) \<and>
   snd (fst (generate_ellipsoid_clusters_f64 L g d n cs)) =
     snd (fst (generate_ellipsoid_clusters L g d n cs))"
  by (simp add: generate_ellipsoid_clusters_f64_def generate_ellipsoid_clusters_def Let_def
      case_prod_beta multivariate_normal_length)

lemma fl64_at:
  assumes lo: "power_int 2 k \<le> \<bar>x\<bar>" and hi: "\<bar>x\<bar> < power_int 2 (k + 1)"
  shows "fl64 x = of_int (round_half_even (x / power_int 2 (k - 52))) * power_int 2 (k - 52)"
proof -
  have "(0 :: real) < power_int 2 k" by simp
  with lo have pos: "0 < \<bar>x\<bar>" by linarith
  have p1: "(2 :: real) powr real_of_int k = power_int 2 k"
    by (rule powr_real_of_int') simp_all
  have p2: "(2 :: real) powr real_of_int (k + 1) = power_int 2 (k + 1)"
    by (rule powr_real_of_int') simp_all
  have "\<lfloor>log 2 \<bar>x\<bar>\<rfloor> = k"
    using floor_log_eq_powr_iff [of "\<bar>x\<bar>" 2 k] pos lo hi p1 p2 by simp
  moreover have "x \<noteq> 0" using pos by simp
  ultimately show ?thesis by (simp add: fl64_def Let_def)
qed

lemma fl64_quarter_exact:
  "fl64 (3602879701896397 / 2 ^ 55 + 1 / 4) = 6305039478318694 / 2 ^ 54"
  by (subst fl64_at [where k = "- 2"]) (simp_all add: round_half_even_def Let_def)

lemma fl64_two_exact:
  "fl64 (3602879701896397 / 2 ^ 55 + 2) = 4728779608739021 / 2 ^ 51"
  by (subst fl64_at [where k = 1]) (simp_all add: round_half_even_def Let_def)

lemma fl64_diff_exact: "fl64 (1 / 4 - 2) = - (7 / 4)"
  by (subst fl64_at [where k = 0]) (simp_all add: round_half_even_def Let_def)

lemma fl64_back_exact:
  "fl64 (4728779608739021 / 2 ^ 51 + - (7 / 4)) = 6305039478318696 / 2 ^ 54"
  by (subst fl64_at [where k = "- 2"]) (simp_all add: round_half_even_def Let_def)

lemma fl64_a_quarter:
  "x = 3602879701896397 / 2 ^ 55 + 1 / 4 \<Longrightarrow> fl64 x = 6305039478318694 / 2 ^ 54"
  by hypsubst (rule fl64_quarter_exact)

lemma fl64_a_two:
  "x = 3602879701896397 / 2 ^ 55 + 2 \<Longrightarrow> fl64 x = 4728779608739021 / 2 ^ 51"
  by hypsubst (rule fl64_two_exact)

lemma fl64_diff: "x = 1 / 4 - 2 \<Longrightarrow> fl64 x = - (7 / 4)"
  by hypsubst (rule fl64_diff_exact)

lemma fl64_back:
  "x = 4728779608739021 / 2 ^ 51 + - (7 / 4) \<Longrightarrow> fl64 x = 6305039478318696 / 2 ^ 54"
  by hypsubst (rule fl64_back_exact)

lemma generate_f64_single:
  "fst (fst (generate_ellipsoid_clusters_f64 (toy_draw_libs a) g d 1 cs)) =
     [(a, a), (add64 a d, add64 a d)]"
  by (simp add: generate_ellipsoid_clusters_f64_def toy_draw_libs_def toy_libs_def Let_def)

text \<open>
  Claim C9, as stated, fails on \<^verbatim>\<open>float64\<close> values, where the addition of line 25 rounds.
  With one sample per cluster and a draw equal to the \<^verbatim>\<open>float64\<close> nearest to 0.1, the
  class-1 point at the distance 0.25 has the coordinate 0.1 + 0.25, the class-1 point at
  the distance 2.0 moved by 0.25 - 2.0 has the coordinate (0.1 + 2.0) + (0.25 - 2.0), and
  the two differ.
\<close>

theorem generator_shift_float64_counterexample:
  "drop 1 (fst (fst (generate_ellipsoid_clusters_f64
      (toy_draw_libs (3602879701896397 / 2 ^ 55)) 0 (1 / 4) 1 (1 / 2)))) =
     [(6305039478318694 / 2 ^ 54, 6305039478318694 / 2 ^ 54)] \<and>
   map (\<lambda>p. (add64 (fst p) (fl64 (1 / 4 - 2)), add64 (snd p) (fl64 (1 / 4 - 2))))
     (drop 1 (fst (fst (generate_ellipsoid_clusters_f64
        (toy_draw_libs (3602879701896397 / 2 ^ 55)) 0 2 1 (1 / 2))))) =
     [(6305039478318696 / 2 ^ 54, 6305039478318696 / 2 ^ 54)] \<and>
   (6305039478318694 / 2 ^ 54 :: real) \<noteq> 6305039478318696 / 2 ^ 54"
  unfolding generate_f64_single
  by (simp add: add64_def fl64_a_quarter fl64_a_two fl64_diff fl64_back)

section \<open>Properties of the boundary line\<close>

text \<open>
  Claim C6. When the weight of \<open>x2\<close> is not zero, the derived slope and intercept are
  the finite values \<open>- beta1 / beta2\<close> and \<open>- beta0 / beta2\<close>, and every point
  \<open>(x, slope * x + intercept)\<close> of the derived line makes the linear decision function
  \<open>beta0 + beta1 * x1 + beta2 * x2\<close> equal to zero, exactly, over the reals.
\<close>

theorem boundary_consistency:
  "beta2 \<noteq> 0 \<Longrightarrow>
     slope_of beta1 beta2 = Fin (- beta1 / beta2) \<and>
     intercept_of beta0 beta2 = Fin (- beta0 / beta2) \<and>
     beta0 + beta1 * x + beta2 * ((- beta1 / beta2) * x + (- beta0 / beta2)) = 0"
  by (simp add: slope_of_def intercept_of_def np_div_def field_simps)

theorem boundary_consistency_witness:
  "(2::real) \<noteq> 0 \<and> slope_of 4 2 = Fin (- 2) \<and> intercept_of 6 2 = Fin (- 3) \<and>
   (6::real) + 4 * 1 + 2 * ((- 2) * 1 + (- 3)) = 0"
  using boundary_consistency [of 2 4 6 1] by simp

section \<open>Properties of the margin caption\<close>

text \<open>The loop over the three contour levels acts at the level 0.7 only.\<close>

lemma levels_fold:
  "fold (level_step L xx yy Z d) (zip contour_levels alphas) (mws, md, out) =
     (case extract_margin L (contourf L xx yy Z (0.7, 1)) (contourf L xx yy Z (0, 0.3)) of
        Inr (Some m) \<Rightarrow> (mws @ [Fin m], Some (Fin m), out)
      | Inr None \<Rightarrow> (mws @ [NaN], md, out)
      | Inl e \<Rightarrow> (mws @ [NaN], md, out @ [MarginError d e]))"
  by (simp add: contour_levels_def alphas_def level_step_def Let_def
      split: sum.splits option.splits)

lemma fmt_2f_has_point: "CHR ''.'' \<in> set (fmt_2f (Fin r))"
  by (simp add: fmt_2f_def Let_def)

lemma fmt_2f_not_na: "fmt_2f v \<noteq> ''N/A''"
proof (cases v)
  case (Fin r)
  have "CHR ''.'' \<notin> set ''N/A''" by simp
  with fmt_2f_has_point [of r] Fin show ?thesis by metis
qed (simp_all add: fmt_2f_def)

text \<open>
  Claim C10. The margin caption of a panel is \<^verbatim>\<open>Margin Width: N/A\<close> exactly when
  \<open>min_distance\<close> is \<open>None\<close> or is 0.0. In particular, when the minimum distance
  computed at the level 0.7 is 0.0, the value 0.0 is appended to the margin widths and
  \<open>min_distance\<close> is 0.0, whose caption is \<^verbatim>\<open>Margin Width: N/A\<close>.
\<close>

theorem margin_caption:
  "(margin_text md = ''Margin Width: N/A'' \<longleftrightarrow> md = None \<or> md = Some (Fin 0)) \<and>
   (extract_margin L (contourf L xx yy Z (0.7, 1)) (contourf L xx yy Z (0, 0.3)) = Inr (Some 0) \<longrightarrow>
      fold (level_step L xx yy Z d) (zip contour_levels alphas) (mws, None, out) =
        (mws @ [Fin 0], Some (Fin 0), out) \<and>
      margin_text (Some (Fin 0)) = ''Margin Width: N/A'')"
proof -
  have "margin_text md = ''Margin Width: N/A'' \<longleftrightarrow> md = None \<or> md = Some (Fin 0)"
    by (cases md) (simp_all add: margin_text_def truthy_def fmt_2f_not_na)
  moreover have "margin_text (Some (Fin 0)) = ''Margin Width: N/A''"
    by (simp add: margin_text_def truthy_def)
  ultimately show ?thesis
    by (simp add: levels_fold)
qed

theorem margin_caption_witness:
  "extract_margin (toy_libs (Inr [[(0, 0)]]) (Inr [[(0, 0)]]))
     (contourf (toy_libs (Inr [[(0, 0)]]) (Inr [[(0, 0)]])) [] [] [] (0.7, 1))
     (contourf (toy_libs (Inr [[(0, 0)]]) (Inr [[(0, 0)]])) [] [] [] (0, 0.3)) = Inr (Some 0) \<and>
   fold (level_step (toy_libs (Inr [[(0, 0)]]) (Inr [[(0, 0)]])) [] [] [] 1)
     (zip contour_levels alphas) ([], None, []) = ([Fin 0], Some (Fin 0), []) \<and>
   margin_text (Some (Fin 0)) = ''Margin Width: N/A'' \<and>
   margin_text None = ''Margin Width: N/A'' \<and>
   margin_text (Some (Fin 5)) = ''Margin Width: 5.00''"
proof -
  let ?T = "toy_libs (Inr [[(0, 0)]]) (Inr [[(0, 0)]])"
  have h: "extract_margin ?T (contourf ?T [] [] [] (0.7, 1)) (contourf ?T [] [] [] (0, 0.3)) =
      Inr (Some 0)"
    by (simp add: extract_margin_def toy_libs_def bind_err_def cdist_def np_min_def amin_def
        euclidean_def)
  have t: "margin_text (Some (Fin 5)) = ''Margin Width: 5.00''"
    by (simp add: margin_text_def truthy_def fmt_2f_def round_half_even_def digit_char_def Let_def)
  have n: "margin_text None = ''Margin Width: N/A''"
    by (simp add: margin_text_def)
  from margin_caption [of "Some (Fin 0)" ?T "[]" "[]" "[]" 1 "[]" "[]"] h t n
  show ?thesis by simp
qed

section \<open>Properties of the slope subplot\<close>

lemma slope_subplot_closed:
  "length ds = length b1 \<Longrightarrow> length b1 = length b2 \<Longrightarrow>
   slope_subplot ds b1 b2 =
     (map fst (filter (\<lambda>(d, b1, b2). b2 + 1 / 10 ^ 8 \<noteq> 0) (zip ds (zip b1 b2))),
      map (\<lambda>(d, b1, b2). Fin (b1 / (b2 + 1 / 10 ^ 8)))
        (filter (\<lambda>(d, b1, b2). b2 + 1 / 10 ^ 8 \<noteq> 0) (zip ds (zip b1 b2))))"
proof (induction ds b1 b2 rule: list_induct3)
  case Nil
  then show ?case by (simp add: slope_subplot_def mask_select_def)
next
  case (Cons x xs y ys z zs)
  then show ?case
    by (simp add: slope_subplot_def mask_select_def Let_def np_div_def np_isnan_def np_isinf_def)
qed

text \<open>
  Claim C8, as stated, fails: the slope subplot does not plot the derived slope
  \<open>- beta1 / beta2\<close>. With \<open>beta1 = beta2 = 1\<close> the derived slope is \<open>- 1\<close>, with or
  without the epsilon it is negative, and the plotted value is positive.
\<close>

theorem slope_subplot_counterexample:
  "slope_subplot [1] [1] [1] = ([1], [Fin (100000000 / 100000001)]) \<and>
   slope_of 1 1 = Fin (- 1) \<and>
   np_div (- 1) (1 + 1 / 10 ^ 8) = Fin (- (100000000 / 100000001))"
  by (simp add: slope_subplot_def mask_select_def Let_def np_div_def np_isnan_def np_isinf_def
      slope_of_def)

text \<open>
  Claim C8, amended. For weight sequences as long as the sequence of distances, the
  slope subplot plots, for each shift distance whose denominator \<open>beta2 + 1e-8\<close> is not
  zero, the ratio \<open>beta1 / (beta2 + 1e-8)\<close>, which has the opposite sign of the derived
  slope; the other distances, where the quotient is NaN or infinite, are left out, so
  every plotted value is finite.
\<close>

theorem slope_subplot_ratio:
  assumes "length ds = length b1" and "length b1 = length b2"
  shows "slope_subplot ds b1 b2 =
     (map fst (filter (\<lambda>(d, b1, b2). b2 + 1 / 10 ^ 8 \<noteq> 0) (zip ds (zip b1 b2))),
      map (\<lambda>(d, b1, b2). Fin (b1 / (b2 + 1 / 10 ^ 8)))
        (filter (\<lambda>(d, b1, b2). b2 + 1 / 10 ^ 8 \<noteq> 0) (zip ds (zip b1 b2))))
    \<and> list_all (\<lambda>v. \<not> np_isnan v \<and> \<not> np_isinf v) (snd (slope_subplot ds b1 b2))"
proof -
  have "list_all (\<lambda>v. \<not> np_isnan v \<and> \<not> np_isinf v)
      (map (\<lambda>(d, b1, b2). Fin (b1 / (b2 + 1 / 10 ^ 8))) zs)" for zs :: "(real \<times> real \<times> real) list"
    by (induction zs) (simp_all add: np_isnan_def np_isinf_def case_prod_beta)
  with slope_subplot_closed [OF assms] show ?thesis by simp
qed

theorem slope_subplot_ratio_witness:
  "length [1, 2, 3 :: real] = length [2, 5, 0 :: real] \<and>
   length [2, 5, 0 :: real] = length [1, - (1 / 10 ^ 8), 0 :: real] \<and>
   slope_subplot [1, 2, 3] [2, 5, 0] [1, - (1 / 10 ^ 8), 0] =
     ([1, 3], [Fin (200000000 / 100000001), Fin 0])"
  using slope_subplot_ratio [of "[1, 2, 3]" "[2, 5, 0]" "[1, - (1 / 10 ^ 8), 0]"] by simp

section \<open>Properties of the numpy helpers\<close>

lemma amin_nonempty: "xs \<noteq> [] \<Longrightarrow> amin xs = Inr (Min (set xs))"
proof (cases xs)
  case (Cons v vs)
  have "fold min vs v = Min (set (v # vs))" by (rule Min.set_eq_fold [symmetric])
  with Cons show ?thesis by (simp add: amin_def)
qed simp

lemma amax_nonempty: "xs \<noteq> [] \<Longrightarrow> amax xs = Inr (Max (set xs))"
proof (cases xs)
  case (Cons v vs)
  have "fold max vs v = Max (set (v # vs))" by (rule Max.set_eq_fold [symmetric])
  with Cons show ?thesis by (simp add: amax_def)
qed simp

lemma bounding_box_nonempty:
  "X \<noteq> [] \<Longrightarrow>
   bounding_box X =
     Inr (Min (fst ` set X) - 1, Max (fst ` set X) + 1, Min (snd ` set X) - 1, Max (snd ` set X) + 1)"
  by (simp add: bounding_box_def bind_err_def amin_nonempty amax_nonempty)


lemma linspace_closed:
  assumes "2 \<le> n"
  shows "linspace a b n = Inr (map (\<lambda>i. a + real i * ((b - a) / real_of_int (n - 1))) [0..<nat n])"
proof -
  let ?f = "\<lambda>i. a + real i * ((b - a) / real_of_int (n - 1))"
  let ?ys = "map ?f [0..<nat n]"
  have len: "length ?ys = nat n" by simp
  have last: "?ys ! (nat n - 1) = b"
    using assms by simp
  have "?ys[length ?ys - 1 := b] = ?ys"
    using last len by (metis list_update_id)
  moreover have "linspace a b n = Inr (?ys[length ?ys - 1 := b])"
    using assms by (simp add: linspace_def Let_def o_def add.commute)
  ultimately show ?thesis by simp
qed


lemma linspace_zero: "linspace a b 0 = Inr []"
  by (simp add: linspace_def Let_def)


section \<open>The probability grid\<close>

lemma linspace_200: "linspace lo hi 200 = Inr (grid_axis lo hi)"
  by (simp add: linspace_closed grid_axis_def)

lemma grid_axis_length: "length (grid_axis lo hi) = 200"
  by (simp add: grid_axis_def)

lemma zip_mesh:
  "zip (concat (replicate (length ys) xs)) (concat (map (\<lambda>y. replicate (length xs) y) ys)) =
     concat (map (\<lambda>y. map (\<lambda>x. (x, y)) xs) ys)"
  by (induction ys) (simp_all add: zip_replicate2)

lemma prob_grid_closed:
  "prob_grid L model x_min x_max y_min y_max =
     Inr (replicate 200 (grid_axis x_min x_max),
          map (replicate 200) (grid_axis y_min y_max),
          reshape 200 200 (map snd (predict_proba L model
            (concat (map (\<lambda>y. map (\<lambda>x. (x, y)) (grid_axis x_min x_max)) (grid_axis y_min y_max))))))"
proof -
  have "grid_points (replicate (length (grid_axis y_min y_max)) (grid_axis x_min x_max))
          (map (\<lambda>y. replicate (length (grid_axis x_min x_max)) y) (grid_axis y_min y_max)) =
        concat (map (\<lambda>y. map (\<lambda>x. (x, y)) (grid_axis x_min x_max)) (grid_axis y_min y_max))"
    unfolding grid_points_def by (rule zip_mesh)
  then show ?thesis
    by (simp add: prob_grid_def bind_err_def linspace_200 meshgrid_def grid_axis_length)
qed

lemma analyse_margin_closed:
  assumes "X \<noteq> []"
  shows "analyse_margin L model X d mws out =
     Inr (fold (level_step L
            (replicate 200 (grid_axis (Min (fst ` set X) - 1) (Max (fst ` set X) + 1)))
            (map (replicate 200) (grid_axis (Min (snd ` set X) - 1) (Max (snd ` set X) + 1)))
            (reshape 200 200 (map snd (predict_proba L model
              (concat (map (\<lambda>y. map (\<lambda>x. (x, y))
                 (grid_axis (Min (fst ` set X) - 1) (Max (fst ` set X) + 1)))
                 (grid_axis (Min (snd ` set X) - 1) (Max (snd ` set X) + 1)))))))
            d)
          (zip contour_levels alphas) (mws, None, out))"
  by (simp add: analyse_margin_def bounding_box_nonempty [OF assms] bind_err_def prob_grid_closed)

lemma generate_nonempty:
  "fst (fst (generate_ellipsoid_clusters L g d 100 cs)) \<noteq> []"
proof -
  have "length (fst (fst (generate_ellipsoid_clusters L g d 100 cs))) = 200"
    by (simp add: generate_points multivariate_normal_length)
  then show ?thesis by auto
qed

lemma generate_state_free:
  "fst (generate_ellipsoid_clusters L g d n cs) = fst (generate_ellipsoid_clusters L g' d n cs)"
  by (simp add: prod_eq_iff generate_points generate_labels)

section \<open>One distance of the sweep\<close>

lemma analyse_margin_grid:
  assumes "X \<noteq> []" and "panel_grid L model X = (xx, yy, Z)"
  shows "analyse_margin L model X d mws out =
     Inr (fold (level_step L xx yy Z d) (zip contour_levels alphas) (mws, None, out))"
  using assms(2) unfolding analyse_margin_closed [OF assms(1)] panel_grid_def Let_def by simp

lemma analyse_margin_total:
  "X \<noteq> [] \<Longrightarrow> \<exists>r. analyse_margin L model X d mws out = Inr r"
  by (rule exI, erule analyse_margin_closed)

lemma levels_fold_length:
  "length (fst (fold (level_step L xx yy Z d) (zip contour_levels alphas) (mws, md, out))) =
     Suc (length mws)"
  by (simp add: levels_fold split: sum.splits option.splits)

lemma analyse_margin_length:
  assumes "analyse_margin L model X d mws out = Inr r"
  shows "length (fst r) = Suc (length mws)"
proof (cases "X = []")
  case True
  then have "analyse_margin L model X d mws out = Inl (ValueError ''zero-size array to reduction operation minimum'')"
    by (simp add: analyse_margin_def bounding_box_def bind_err_def amin_def)
  with assms show ?thesis by simp
next
  case False
  from assms show ?thesis
    unfolding analyse_margin_closed [OF False] using levels_fold_length by auto
qed

lemma experiment_step_closed:
  assumes gen: "generate_ellipsoid_clusters L (rng st) d 100 0.5 = ((X, y), g')"
    and fit: "fit L X y = Inr model"
    and grid: "panel_grid L model X = (xx, yy, Z)"
    and R: "R = fold (level_step L xx yy Z d) (zip contour_levels alphas) (margin_widths st, None, stdout st)"
  shows "experiment_step L d st =
     Inr (st\<lparr>rng := g',
            beta0_list := beta0_list st @ [intercept0 L model],
            beta1_list := beta1_list st @ [fst (coef0 L model)],
            beta2_list := beta2_list st @ [snd (coef0 L model)],
            slope_list := slope_list st @ [slope_of (fst (coef0 L model)) (snd (coef0 L model))],
            intercept_list := intercept_list st @ [intercept_of (intercept0 L model) (snd (coef0 L model))],
            loss_list := loss_list st @ [log_loss L y (predict_proba L model X)],
            margin_widths := fst R,
            margin_texts := margin_texts st @ [margin_text (fst (snd R))],
            stdout := snd (snd R)\<rparr>)"
proof -
  have "X = fst (fst (generate_ellipsoid_clusters L (rng st) d 100 0.5))"
    using gen by simp
  then have ne: "X \<noteq> []" by (simp add: generate_nonempty)
  show ?thesis
    unfolding experiment_step_def gen
    by (simp add: Let_def bind_err_def fit_logistic_regression_def fit case_prod_beta
        analyse_margin_grid [OF ne grid] R)
qed


lemma experiment_step_total:
  assumes "fit_ok L d"
  shows "\<exists>st'. experiment_step L d st = Inr st'"
proof -
  obtain X y g' where gen: "generate_ellipsoid_clusters L (rng st) d 100 0.5 = ((X, y), g')"
    by (metis surj_pair)
  have "fst (generate_ellipsoid_clusters L (seed L 0) d 100 0.5) = (X, y)"
    using generate_state_free [of L "seed L 0" d 100 "0.5" "rng st"] gen by simp
  with assms obtain model where fit: "fit L X y = Inr model"
    by (auto simp add: fit_ok_def Let_def split: sum.splits)
  obtain xx yy Z where grid: "panel_grid L model X = (xx, yy, Z)"
    by (metis surj_pair)
  from experiment_step_closed [OF gen fit grid refl] show ?thesis by blast
qed



section \<open>Properties of the sweep\<close>



lemma toy_fit_ok: "fit_ok (toy_libs p1 p0) d"
  by (simp add: fit_ok_def toy_libs_def Let_def)




lemma toy_zero_steps:
  "do_experiments (toy_libs p1 p0) g start stop 0 = Inl (ValueError ''figure size must be positive'')"
  by (simp add: do_experiments_def bind_err_def Let_def linspace_zero toy_libs_def)




section \<open>Properties of the margin width\<close>

lemma extract_margin_empty:
  assumes "get_paths L c1 = Inr p1" and "get_paths L c0 = Inr p0" and "p1 = [] \<or> p0 = []"
  shows "extract_margin L c1 c0 = Inr None"
  using assms by (auto simp add: extract_margin_def bind_err_def)

lemma cdist_set:
  "set (concat (cdist A B)) = (\<lambda>(a, b). euclidean a b) ` (set A \<times> set B)"
  by (auto simp add: cdist_def)

lemma cdist_nonempty: "A \<noteq> [] \<Longrightarrow> B \<noteq> [] \<Longrightarrow> concat (cdist A B) \<noteq> []"
  by (cases A; cases B) (simp_all add: cdist_def)

lemma np_min_cdist:
  assumes "A \<noteq> []" and "B \<noteq> []"
  shows "np_min (cdist A B) = Inr (Min ((\<lambda>(a, b). euclidean a b) ` (set A \<times> set B)))"
  unfolding np_min_def amin_nonempty [OF cdist_nonempty [OF assms]] cdist_set ..

lemma extract_margin_computed:
  assumes "get_paths L c1 = Inr p1" and "get_paths L c0 = Inr p0"
    and "concat p1 \<noteq> []" and "concat p0 \<noteq> []"
  shows "extract_margin L c1 c0 =
     Inr (Some (Min ((\<lambda>(a, b). euclidean a b) ` (set (concat p1) \<times> set (concat p0)))))"
proof -
  have "p1 \<noteq> []" and "p0 \<noteq> []" using assms(3,4) by auto
  then show ?thesis
    by (simp add: extract_margin_def bind_err_def assms(1,2) Let_def
        np_min_cdist [OF assms(3,4)])
qed

lemma levels_fold_empty:
  assumes "get_paths L (contourf L xx yy Z (0.7, 1)) = Inr p1"
    and "get_paths L (contourf L xx yy Z (0, 0.3)) = Inr p0" and "p1 = [] \<or> p0 = []"
  shows "fold (level_step L xx yy Z d) (zip contour_levels alphas) (mws, md, out) =
     (mws @ [NaN], md, out)"
  unfolding levels_fold extract_margin_empty [OF assms] by simp

lemma levels_fold_raised:
  assumes "extract_margin L (contourf L xx yy Z (0.7, 1)) (contourf L xx yy Z (0, 0.3)) = Inl e"
  shows "fold (level_step L xx yy Z d) (zip contour_levels alphas) (mws, md, out) =
     (mws @ [NaN], md, out @ [MarginError d e])"
  unfolding levels_fold assms by simp

lemma levels_fold_console:
  assumes "snd (snd (fold (level_step L xx yy Z d) (zip contour_levels alphas) (mws, md, out))) \<noteq> out"
  shows "\<exists>e. extract_margin L (contourf L xx yy Z (0.7, 1)) (contourf L xx yy Z (0, 0.3)) = Inl e"
proof (cases "extract_margin L (contourf L xx yy Z (0.7, 1)) (contourf L xx yy Z (0, 0.3))")
  case (Inl e)
  then show ?thesis by simp
next
  case (Inr m)
  with assms show ?thesis
    unfolding levels_fold by (cases m) simp_all
qed

lemma levels_fold_computed:
  assumes "get_paths L (contourf L xx yy Z (0.7, 1)) = Inr p1"
    and "get_paths L (contourf L xx yy Z (0, 0.3)) = Inr p0"
    and "concat p1 \<noteq> []" and "concat p0 \<noteq> []"
  shows "fold (level_step L xx yy Z d) (zip contour_levels alphas) (mws, md, out) =
     (mws @ [Fin (Min ((\<lambda>(a, b). euclidean a b) ` (set (concat p1) \<times> set (concat p0))))],
      Some (Fin (Min ((\<lambda>(a, b). euclidean a b) ` (set (concat p1) \<times> set (concat p0))))),
      out)"
  unfolding levels_fold extract_margin_computed [OF assms] by simp

lemma run_experiments_step:
  "experiment_step L d st = Inr st' \<Longrightarrow>
     run_experiments L (d # rest) st = run_experiments L rest st'"
  by (simp add: bind_err_def)

lemma experiment_step_margin:
  assumes gen: "generate_ellipsoid_clusters L (rng st) d 100 0.5 = ((X, y), g')"
    and fit: "fit L X y = Inr model"
    and grid: "panel_grid L model X = (xx, yy, Z)"
  shows "\<exists>st'. experiment_step L d st = Inr st' \<and>
     margin_widths st' =
       fst (fold (level_step L xx yy Z d) (zip contour_levels alphas)
              (margin_widths st, None, stdout st)) \<and>
     stdout st' =
       snd (snd (fold (level_step L xx yy Z d) (zip contour_levels alphas)
              (margin_widths st, None, stdout st)))"
  unfolding experiment_step_closed [OF gen fit grid refl] by simp

lemma sqrt_squares: "sqrt 4 = 2" "sqrt 9 = 3" "sqrt 16 = 4" "sqrt 25 = 5"
  by (rule real_sqrt_unique; simp)+

lemma length_mesh:
  "length (concat (map (\<lambda>y. map (f y) xs) ys)) = length ys * length xs"
  by (induction ys) simp_all

lemma spec_grid_points_length: "length (spec_grid_points X) = 40000"
  unfolding spec_grid_points_def by (simp add: length_mesh grid_axis_length)

lemma reshape_nth:
  assumes "length zs = rows * cols"
  shows "reshape rows cols zs = map (\<lambda>r. map (\<lambda>c. zs ! (r * cols + c)) [0..<cols]) [0..<rows]"
proof -
  have row: "take cols (drop (r * cols) zs) = map (\<lambda>c. zs ! (r * cols + c)) [0..<cols]"
    if "r < rows" for r
  proof (rule nth_equalityI)
    have "Suc r * cols \<le> rows * cols" using that by (simp add: Suc_leI mult_le_mono1 del: mult_Suc)
    then have "r * cols + cols \<le> length zs" using assms by simp
    then show len: "length (take cols (drop (r * cols) zs)) = length (map (\<lambda>c. zs ! (r * cols + c)) [0..<cols])"
      by simp
    fix i
    assume "i < length (take cols (drop (r * cols) zs))"
    with len have "i < cols" by simp
    with \<open>r * cols + cols \<le> length zs\<close>
    show "take cols (drop (r * cols) zs) ! i = map (\<lambda>c. zs ! (r * cols + c)) [0..<cols] ! i"
      by simp
  qed
  show ?thesis unfolding reshape_def
    by (rule map_cong [OF refl]) (simp add: row)
qed

lemma surface_rows:
  assumes "length P = 40000"
  shows "reshape 200 200 (map snd P) =
     map (\<lambda>r. map (\<lambda>c. snd (P ! (r * 200 + c))) [0..<200]) [0..<200]"
proof -
  have "length (map snd P) = 200 * 200" using assms by simp
  from reshape_nth [OF this] have
    "reshape 200 200 (map snd P) =
       map (\<lambda>r. map (\<lambda>c. map snd P ! (r * 200 + c)) [0..<200]) [0..<200]" .
  also have "\<dots> = map (\<lambda>r. map (\<lambda>c. snd (P ! (r * 200 + c))) [0..<200]) [0..<200]"
  proof (rule map_cong [OF refl], rule map_cong [OF refl])
    fix r c :: nat
    assume "r \<in> set [0..<200]" and "c \<in> set [0..<200]"
    then have "r * 200 + c < length P" using assms by simp
    then show "map snd P ! (r * 200 + c) = snd (P ! (r * 200 + c))" by (rule nth_map)
  qed
  finally show ?thesis .
qed

lemma panel_grid_spec:
  assumes "length (predict_proba L model (spec_grid_points X)) = length (spec_grid_points X)"
  shows "panel_grid L model X = spec_probability_grid L model X"
proof -
  have "length (predict_proba L model (spec_grid_points X)) = 40000"
    using assms by (simp add: spec_grid_points_length)
  from surface_rows [OF this] show ?thesis
    unfolding panel_grid_def spec_probability_grid_def Let_def spec_grid_points_def by simp
qed

lemma sqrt_more_squares: "sqrt 100 = 10" "sqrt 225 = 15"
  by (rule real_sqrt_unique; simp)+

lemma euclidean_formula:
  "(\<lambda>(a, b). euclidean a b) = (\<lambda>(a, b). sqrt ((fst a - fst b)\<^sup>2 + (snd a - snd b)\<^sup>2))"
  by (simp add: euclidean_def fun_eq_iff)

text \<open>
  Claim C2, amended. For a shift distance of the sweep whose dataset the classifier
  fits, let the probability surface be the class-1 probability on the uniform 200 by
  200 grid over the bounding box of the dataset widened by one unit on each side, where
  \<open>predict_proba\<close> returns one row per grid point. When the contour sets of the level
  0.7, the class-1 region between 0.7 and 1 and the class-0 region between 0 and 0.3,
  both have paths with at least one vertex, the step appends exactly one margin width:
  the least Euclidean distance between a vertex of the class-1 paths and a vertex of
  the class-0 paths. The contour sets of the levels 0.8 and 0.9 do not enter.
\<close>

theorem margin_width_computation:
  assumes gen: "generate_ellipsoid_clusters L (rng st) d 100 0.5 = ((X, y), g')"
    and fit: "fit L X y = Inr model"
    and rows: "length (predict_proba L model (spec_grid_points X)) = length (spec_grid_points X)"
    and grid: "spec_probability_grid L model X = (xx, yy, Z)"
    and p1: "get_paths L (contourf L xx yy Z (0.7, 1)) = Inr p1"
    and p0: "get_paths L (contourf L xx yy Z (0, 0.3)) = Inr p0"
    and ne1: "concat p1 \<noteq> []"
    and ne0: "concat p0 \<noteq> []"
  shows "\<exists>st'. experiment_step L d st = Inr st' \<and>
     margin_widths st' = margin_widths st @
       [Fin (Min ((\<lambda>(a, b). sqrt ((fst a - fst b)\<^sup>2 + (snd a - snd b)\<^sup>2)) `
                   (set (concat p1) \<times> set (concat p0))))]"
proof -
  have pg: "panel_grid L model X = (xx, yy, Z)"
    unfolding panel_grid_spec [OF rows] by (rule grid)
  from experiment_step_margin [OF gen fit pg] obtain st' where
    step: "experiment_step L d st = Inr st'" and
    mw: "margin_widths st' =
       fst (fold (level_step L xx yy Z d) (zip contour_levels alphas)
              (margin_widths st, None, stdout st))"
    by auto
  have "margin_widths st' = margin_widths st @
       [Fin (Min ((\<lambda>(a, b). sqrt ((fst a - fst b)\<^sup>2 + (snd a - snd b)\<^sup>2)) `
                   (set (concat p1) \<times> set (concat p0))))]"
    unfolding mw levels_fold_computed [OF p1 p0 ne1 ne0] euclidean_formula by simp
  with step show ?thesis by (intro exI conjI)
qed

theorem margin_width_computation_witness:
  "(\<exists>st'. experiment_step (toy_libs (Inr [[(0, 0)], [(- 3, - 4)]]) (Inr [[(3, 4), (6, 8)]])) 1
            (init_sweep 0) = Inr st' \<and>
         margin_widths st' = [Fin 5]) \<and>
   euclidean (0, 0) (3, 4) = 5 \<and>
   cdist [(0, 0), (- 3, - 4)] [(3, 4), (6, 8)] = [[5, 10], [10, 15]] \<and>
   np_min [[5, 10], [10, 15]] = Inr 5 \<and>
   reshape 2 3 [1, 2, 3, 4, 5, 6 :: real] = [[1, 2, 3], [4, 5, 6]]"
proof -
  let ?T = "toy_libs (Inr [[(0, 0)], [(- 3, - 4)]]) (Inr [[(3, 4), (6, 8)]])"
  let ?G = "generate_ellipsoid_clusters ?T (rng (init_sweep 0)) 1 100 0.5"
  let ?P = "spec_probability_grid ?T (0, 1, 1) (fst (fst ?G))"
  have gen: "?G = ((fst (fst ?G), snd (fst ?G)), snd ?G)" by simp
  have fit: "fit ?T (fst (fst ?G)) (snd (fst ?G)) = Inr (0, 1, 1)"
    by (simp add: toy_libs_def)
  have rows: "length (predict_proba ?T (0, 1, 1) (spec_grid_points (fst (fst ?G)))) =
      length (spec_grid_points (fst (fst ?G)))"
    by (simp add: toy_libs_def)
  have grid: "?P = (fst ?P, fst (snd ?P), snd (snd ?P))" by simp
  have p1: "get_paths ?T (contourf ?T (fst ?P) (fst (snd ?P)) (snd (snd ?P)) (0.7, 1)) =
      Inr [[(0, 0)], [(- 3, - 4)]]"
    by (simp add: toy_libs_def)
  have p0: "get_paths ?T (contourf ?T (fst ?P) (fst (snd ?P)) (snd (snd ?P)) (0, 0.3)) =
      Inr [[(3, 4), (6, 8)]]"
    by (simp add: toy_libs_def)
  have ne1: "concat [[(0 :: real, 0 :: real)], [(- 3, - 4)]] \<noteq> []" by simp
  have ne0: "concat [[(3 :: real, 4 :: real), (6, 8)]] \<noteq> []" by simp
  have val: "Min ((\<lambda>(a, b). sqrt ((fst a - fst b)\<^sup>2 + (snd a - snd b)\<^sup>2)) `
        (set (concat [[(0, 0)], [(- 3, - 4)]]) \<times> set (concat [[(3, 4), (6, 8)]]))) = 5"
    by (simp add: sqrt_squares sqrt_more_squares)
  have mw0: "margin_widths (init_sweep (0 :: nat)) @ [Fin 5] = [Fin 5]"
    by (simp add: init_sweep_def)
  have step: "\<exists>st'. experiment_step ?T 1 (init_sweep 0) = Inr st' \<and> margin_widths st' = [Fin 5]"
    using margin_width_computation [OF gen fit rows grid p1 p0 ne1 ne0]
    unfolding val mw0 .
  have e: "euclidean (0, 0) (3, 4) = 5"
    by (simp add: euclidean_def sqrt_squares)
  have c: "cdist [(0, 0), (- 3, - 4)] [(3, 4), (6, 8)] = [[5, 10], [10, 15]]"
    by (simp add: cdist_def euclidean_def sqrt_squares sqrt_more_squares)
  have m: "np_min [[5, 10], [10, 15]] = Inr 5"
    by (simp add: np_min_def amin_def)
  have r: "reshape 2 3 [1, 2, 3, 4, 5, 6 :: real] = [[1, 2, 3], [4, 5, 6]]"
    by (simp add: reshape_def upt_conv_Cons)
  show ?thesis by (rule conjI [OF step conjI [OF e conjI [OF c conjI [OF m r]]]])
qed

text \<open>
  Claim C2, as stated, fails at a shift distance where a region has no path: with an
  empty path list for the class-1 region the margin width recorded for the distance is
  NaN, not a least distance between vertices.
\<close>

theorem margin_width_counterexample:
  "get_paths (toy_libs (Inr []) (Inr [[(0, 0)]]))
     (contourf (toy_libs (Inr []) (Inr [[(0, 0)]])) [] [] [] (0.7, 1)) = Inr [] \<and>
   map_sum id margin_widths
     (experiment_step (toy_libs (Inr []) (Inr [[(0, 0)]])) 1 (init_sweep 0)) = Inr [NaN]"
proof -
  let ?T = "toy_libs (Inr []) (Inr [[(0, 0)]])"
  let ?G = "generate_ellipsoid_clusters ?T (rng (init_sweep 0)) 1 100 0.5"
  let ?P = "panel_grid ?T (0, 1, 1) (fst (fst ?G))"
  have a: "get_paths ?T (contourf ?T [] [] [] (0.7, 1)) = Inr []"
    by (simp add: toy_libs_def)
  have gen: "?G = ((fst (fst ?G), snd (fst ?G)), snd ?G)" by simp
  have fit: "fit ?T (fst (fst ?G)) (snd (fst ?G)) = Inr (0, 1, 1)"
    by (simp add: toy_libs_def)
  have grid: "?P = (fst ?P, fst (snd ?P), snd (snd ?P))" by simp
  have p1: "get_paths ?T (contourf ?T (fst ?P) (fst (snd ?P)) (snd (snd ?P)) (0.7, 1)) = Inr []"
    by (simp add: toy_libs_def)
  have p0: "get_paths ?T (contourf ?T (fst ?P) (fst (snd ?P)) (snd (snd ?P)) (0, 0.3)) =
      Inr [[(0, 0)]]"
    by (simp add: toy_libs_def)
  have e: "([] :: path list) = [] \<or> [[(0 :: real, 0 :: real)]] = []" by simp
  let ?F = "fold (level_step ?T (fst ?P) (fst (snd ?P)) (snd (snd ?P)) 1)
              (zip contour_levels alphas)
              (margin_widths (init_sweep (0 :: nat)), None, stdout (init_sweep (0 :: nat)))"
  from experiment_step_margin [OF gen fit grid] obtain st' where
    c: "experiment_step ?T 1 (init_sweep 0) = Inr st' \<and>
        margin_widths st' = fst ?F \<and> stdout st' = snd (snd ?F)" ..
  note step = c [THEN conjunct1]
  note mw = c [THEN conjunct2, THEN conjunct1]
  have "margin_widths st' = [NaN]"
    unfolding mw levels_fold_empty [OF p1 p0 e] by (simp add: init_sweep_def)
  with step have "map_sum id margin_widths (experiment_step ?T 1 (init_sweep 0)) = Inr [NaN]"
    by simp
  with a show ?thesis by (rule conjI)
qed

text \<open>
  Claim C7, amended. At a shift distance where the path list of either region at the
  level 0.7 is empty, NaN is recorded as the margin width and nothing is written to the
  console. Where the extraction raises an exception, NaN is recorded and one diagnostic
  line with the distance and the exception is written. The console grows only when an
  exception was raised. In every case the step of a distance whose dataset the
  classifier fits returns, and the sweep goes on with the remaining distances.
\<close>

theorem margin_unavailable:
  "(get_paths L (contourf L xx yy Z (0.7, 1)) = Inr p1 \<and>
    get_paths L (contourf L xx yy Z (0, 0.3)) = Inr p0 \<and> (p1 = [] \<or> p0 = []) \<longrightarrow>
      fold (level_step L xx yy Z d) (zip contour_levels alphas) (mws, None, out) =
        (mws @ [NaN], None, out)) \<and>
   (extract_margin L (contourf L xx yy Z (0.7, 1)) (contourf L xx yy Z (0, 0.3)) = Inl e \<longrightarrow>
      fold (level_step L xx yy Z d) (zip contour_levels alphas) (mws, None, out) =
        (mws @ [NaN], None, out @ [MarginError d e])) \<and>
   (snd (snd (fold (level_step L xx yy Z d) (zip contour_levels alphas) (mws, None, out))) \<noteq> out \<longrightarrow>
      (\<exists>e'. extract_margin L (contourf L xx yy Z (0.7, 1)) (contourf L xx yy Z (0, 0.3)) = Inl e')) \<and>
   (fit_ok L d \<longrightarrow>
      (\<exists>st'. experiment_step L d st = Inr st' \<and>
         run_experiments L (d # rest) st = run_experiments L rest st'))"
proof (intro conjI impI)
  assume "get_paths L (contourf L xx yy Z (0.7, 1)) = Inr p1 \<and>
    get_paths L (contourf L xx yy Z (0, 0.3)) = Inr p0 \<and> (p1 = [] \<or> p0 = [])"
  then show "fold (level_step L xx yy Z d) (zip contour_levels alphas) (mws, None, out) =
        (mws @ [NaN], None, out)"
    using levels_fold_empty by metis
next
  assume "extract_margin L (contourf L xx yy Z (0.7, 1)) (contourf L xx yy Z (0, 0.3)) = Inl e"
  then show "fold (level_step L xx yy Z d) (zip contour_levels alphas) (mws, None, out) =
        (mws @ [NaN], None, out @ [MarginError d e])"
    by (rule levels_fold_raised)
next
  assume "snd (snd (fold (level_step L xx yy Z d) (zip contour_levels alphas) (mws, None, out))) \<noteq> out"
  then show "\<exists>e'. extract_margin L (contourf L xx yy Z (0.7, 1)) (contourf L xx yy Z (0, 0.3)) = Inl e'"
    by (rule levels_fold_console)
next
  assume "fit_ok L d"
  then obtain st' where s: "experiment_step L d st = Inr st'"
    using experiment_step_total by metis
  from s run_experiments_step [OF s, of rest]
  show "\<exists>st'. experiment_step L d st = Inr st' \<and>
         run_experiments L (d # rest) st = run_experiments L rest st'"
    by (intro exI conjI)
qed

theorem margin_unavailable_witness:
  "fold (level_step (toy_libs (Inr []) (Inr [[(0, 0)]])) [] [] [] 1)
     (zip contour_levels alphas) ([], None, []) = ([NaN], None, []) \<and>
   fold (level_step (toy_libs (Inl (LibraryError ''collections'')) (Inr [[(0, 0)]])) [] [] [] 1)
     (zip contour_levels alphas) ([], None, []) =
     ([NaN], None, [MarginError 1 (LibraryError ''collections'')]) \<and>
   extract_margin (toy_libs (Inl (LibraryError ''collections'')) (Inr [[(0, 0)]]))
     (contourf (toy_libs (Inl (LibraryError ''collections'')) (Inr [[(0, 0)]])) [] [] [] (0.7, 1))
     (contourf (toy_libs (Inl (LibraryError ''collections'')) (Inr [[(0, 0)]])) [] [] [] (0, 0.3)) =
     Inl (LibraryError ''collections'') \<and>
   (\<exists>st'. experiment_step (toy_libs (Inr []) (Inr [[(0, 0)]])) 1 (init_sweep 0) = Inr st' \<and>
      run_experiments (toy_libs (Inr []) (Inr [[(0, 0)]])) [1, 2] (init_sweep 0) =
      run_experiments (toy_libs (Inr []) (Inr [[(0, 0)]])) [2] st')"
proof -
  let ?A = "toy_libs (Inr []) (Inr [[(0, 0)]])"
  let ?B = "toy_libs (Inl (LibraryError ''collections'')) (Inr [[(0, 0)]])"
  let ?e = "LibraryError ''collections''"
  have hA: "get_paths ?A (contourf ?A [] [] [] (0.7, 1)) = Inr [] \<and>
      get_paths ?A (contourf ?A [] [] [] (0, 0.3)) = Inr [[(0, 0)]] \<and>
      (([] :: path list) = [] \<or> [[(0 :: real, 0 :: real)]] = [])"
    by (simp add: toy_libs_def)
  have hB: "extract_margin ?B (contourf ?B [] [] [] (0.7, 1)) (contourf ?B [] [] [] (0, 0.3)) =
      Inl ?e"
    by (simp add: extract_margin_def bind_err_def toy_libs_def)
  have okA: "fit_ok ?A 1" by (rule toy_fit_ok)
  note thA = margin_unavailable [where L = ?A and xx = "[]" and yy = "[]" and Z = "[]"
      and ?p1.0 = "[]" and ?p0.0 = "[[(0, 0)]]" and d = 1 and mws = "[]" and out = "[]"
      and st = "init_sweep 0" and rest = "[2]"]
  note thB = margin_unavailable [where L = ?B and xx = "[]" and yy = "[]" and Z = "[]"
      and d = 1 and mws = "[]" and out = "[]" and e = ?e]
  have r1: "fold (level_step ?A [] [] [] 1) (zip contour_levels alphas) ([], None, []) =
      ([NaN], None, [])"
    using thA [THEN conjunct1, THEN mp, OF hA] by simp
  have r2: "fold (level_step ?B [] [] [] 1) (zip contour_levels alphas) ([], None, []) =
      ([NaN], None, [MarginError 1 ?e])"
    using thB [THEN conjunct2, THEN conjunct1, THEN mp, OF hB] by simp
  have neq: "snd (snd (fold (level_step ?B [] [] [] 1) (zip contour_levels alphas)
      ([], None, []))) \<noteq> []"
    unfolding r2 by simp
  have r3: "\<exists>e'. extract_margin ?B (contourf ?B [] [] [] (0.7, 1))
      (contourf ?B [] [] [] (0, 0.3)) = Inl e'"
    by (rule thB [THEN conjunct2, THEN conjunct2, THEN conjunct1, THEN mp, OF neq])
  have r4: "\<exists>st'. experiment_step ?A 1 (init_sweep 0) = Inr st' \<and>
      run_experiments ?A [1, 2] (init_sweep 0) = run_experiments ?A [2] st'"
    by (rule thA [THEN conjunct2, THEN conjunct2, THEN conjunct2, THEN mp, OF okA])
  show ?thesis by (rule conjI [OF r1 conjI [OF r2 conjI [OF hB r4]]])
qed

text \<open>
  Claim C7, as stated, fails where no geometry is found: with an empty path list for the
  class-1 region, NaN is recorded and the console stays empty, so no diagnostic message
  is printed.
\<close>

theorem margin_unavailable_counterexample:
  "get_paths (toy_libs (Inr []) (Inr [[(0, 0)]]))
     (contourf (toy_libs (Inr []) (Inr [[(0, 0)]])) [] [] [] (0.7, 1)) = Inr [] \<and>
   fold (level_step (toy_libs (Inr []) (Inr [[(0, 0)]])) [] [] [] 1)
     (zip contour_levels alphas) ([], None, []) = ([NaN], None, [])"
proof -
  let ?A = "toy_libs (Inr []) (Inr [[(0, 0)]])"
  have a: "get_paths ?A (contourf ?A [] [] [] (0.7, 1)) = Inr []"
    by (simp add: toy_libs_def)
  have b: "get_paths ?A (contourf ?A [] [] [] (0, 0.3)) = Inr [[(0, 0)]]"
    by (simp add: toy_libs_def)
  have "fold (level_step ?A [] [] [] 1) (zip contour_levels alphas) ([], None, []) =
      ([] @ [NaN], None, [])"
    by (rule levels_fold_empty [OF a b]) simp
  with a show ?thesis by simp
qed

end
